theory Spec2Isabelle
  imports Complex_Main
begin

section \<open>Values, errors and table rows\<close>

text \<open>
  The curve filler of \<^verbatim>\<open>calibration/interpolation.py\<close> works on a pandas DataFrame.
  A DataFrame is modelled as the list of its rows, in index order. Python floats are
  modelled as reals: rounding and overflow of IEEE doubles are outside this model.
  A value of the two optional columns \<^verbatim>\<open>reference_price\<close> and \<^verbatim>\<open>forward_ratio\<close> is a
  \<open>cell\<close>: a number, the null value of a float column (NaN), or an infinity. A row that has no such
  key at all holds \<open>None\<close> there; a row that has the key holds \<open>Some c\<close>.
  The test \<^verbatim>\<open>'reference_price' in row\<close> of the source asks whether the row has the key,
  not whether the value is a number: a row taken from a DataFrame has every column of
  the frame as a key, and a missing value of a float column is NaN.
  The column \<^verbatim>\<open>method\<close> is the field \<open>method_tag\<close>.

  The columns are numeric, as pandas builds them: \<^verbatim>\<open>days\<close> is an integer column (its 64-bit
  range is not modelled) and the rate and price columns are float columns, so the values
  read from a row are numpy scalars. Dividing such a float by zero raises nothing: the
  quotient is inf, -inf or nan (with a warning) and the computation goes on. The float
  arithmetic of the two extrapolators is therefore done on \<open>cell\<close>s, which have the two
  infinities beside NaN. The column \<^verbatim>\<open>discount_rate\<close> of the model holds reals; the one
  result it cannot hold, an appended rate of +inf, is the outcome \<open>Inl InfiniteRate\<close>.
\<close>

datatype pyval = PNone | PBool bool | PInt int | PFloat real | PStr string

datatype error = TypeError | IndexError | KeyError | ZeroDivisionError | InfiniteRate

datatype cell = NaN | NegInf | Num real | PosInf

text \<open>
  Float arithmetic on cells, as IEEE 754 has it: NaN propagates through every
  operation, \<open>inf - inf\<close> and \<open>0 * inf\<close> are NaN, and an infinity times a number takes
  the sign of the product.
\<close>

fun cell_neg :: "cell \<Rightarrow> cell" where
  "cell_neg (Num a) = Num (- a)"
| "cell_neg PosInf = NegInf"
| "cell_neg NegInf = PosInf"
| "cell_neg NaN = NaN"

fun cell_add :: "cell \<Rightarrow> cell \<Rightarrow> cell" where
  "cell_add (Num a) (Num b) = Num (a + b)"
| "cell_add NaN b = NaN"
| "cell_add a NaN = NaN"
| "cell_add PosInf NegInf = NaN"
| "cell_add NegInf PosInf = NaN"
| "cell_add PosInf b = PosInf"
| "cell_add a PosInf = PosInf"
| "cell_add NegInf b = NegInf"
| "cell_add a NegInf = NegInf"

definition inf_times :: "cell \<Rightarrow> real \<Rightarrow> cell" where
  "inf_times i b = (if b > 0 then i else if b < 0 then cell_neg i else NaN)"

fun cell_mul :: "cell \<Rightarrow> cell \<Rightarrow> cell" where
  "cell_mul (Num a) (Num b) = Num (a * b)"
| "cell_mul NaN b = NaN"
| "cell_mul a NaN = NaN"
| "cell_mul (Num a) i = inf_times i a"
| "cell_mul i (Num b) = inf_times i b"
| "cell_mul PosInf PosInf = PosInf"
| "cell_mul NegInf NegInf = PosInf"
| "cell_mul PosInf NegInf = NegInf"
| "cell_mul NegInf PosInf = NegInf"

instantiation cell :: "{plus, minus, times}"
begin

definition plus_cell :: "cell \<Rightarrow> cell \<Rightarrow> cell" where
  "plus_cell a b = cell_add a b"

definition minus_cell :: "cell \<Rightarrow> cell \<Rightarrow> cell" where
  "minus_cell a b = cell_add a (cell_neg b)"

definition times_cell :: "cell \<Rightarrow> cell \<Rightarrow> cell" where
  "times_cell a b = cell_mul a b"

instance ..

end

text \<open>
  Division of a float by an integer day count, which may be zero: a positive number
  over zero is inf, a negative one -inf, and zero over zero is nan.
\<close>

fun cell_div :: "cell \<Rightarrow> int \<Rightarrow> cell" where
  "cell_div (Num a) n =
     (if n = 0 then (if a > 0 then PosInf else if a < 0 then NegInf else NaN)
      else Num (a / real_of_int n))"
| "cell_div NaN n = NaN"
| "cell_div PosInf n = (if n < 0 then NegInf else PosInf)"
| "cell_div NegInf n = (if n < 0 then PosInf else NegInf)"

text \<open>
  Python's \<^verbatim>\<open>max(a, b)\<close> returns \<open>a\<close> unless \<open>b > a\<close>, and \<^verbatim>\<open>min(a, b)\<close> returns
  \<open>a\<close> unless \<open>b < a\<close>; every comparison with NaN is false.
\<close>

fun cell_gt :: "cell \<Rightarrow> cell \<Rightarrow> bool" where
  "cell_gt (Num a) (Num b) = (a > b)"
| "cell_gt NaN b = False"
| "cell_gt a NaN = False"
| "cell_gt PosInf PosInf = False"
| "cell_gt PosInf b = True"
| "cell_gt a PosInf = False"
| "cell_gt NegInf b = False"
| "cell_gt a NegInf = True"

definition cell_max :: "cell \<Rightarrow> cell \<Rightarrow> cell" where
  "cell_max a b = (if cell_gt b a then b else a)"

definition cell_min :: "cell \<Rightarrow> cell \<Rightarrow> cell" where
  "cell_min a b = (if cell_gt a b then b else a)"

record row =
  expiry_date :: string
  days :: int
  years :: real
  discount_rate :: real
  method_tag :: string
  put_strike :: "real option"
  call_strike :: "real option"
  put_price :: "real option"
  call_price :: "real option"
  put_iv :: "real option"
  call_iv :: "real option"
  iv_diff :: "real option"
  reference_price :: "cell option"
  forward_ratio :: "cell option"

type_synonym dataframe = "row list"

text \<open>
  \<^verbatim>\<open>df.sort_values('days', ascending=...)\<close>. pandas' default sort does not fix the order
  of rows with equal days. The model takes the stable order (for a descending key pandas
  reverses the column, sorts it ascending and reverses the result). No theorem of a claim
  depends on that choice: each is about tables without ties, or about the days of the
  selected rows, which are the same under every order of ties, or holds for the rows
  selected whatever they are.
\<close>

definition sort_values :: "bool \<Rightarrow> dataframe \<Rightarrow> dataframe" where
  "sort_values ascending df =
     (if ascending then sort_key days df else rev (sort_key days (rev df)))"

text \<open>\<^verbatim>\<open>df.iloc[i]\<close> for \<open>i \<ge> 0\<close>: raises IndexError out of range.\<close>

definition iloc :: "dataframe \<Rightarrow> nat \<Rightarrow> error + row" where
  "iloc df i = (if i < length df then Inr (df ! i) else Inl IndexError)"

text \<open>
  The dictionary \<^verbatim>\<open>new_row\<close> of the three operations: the option-market fields are
  \<^verbatim>\<open>None\<close>, the two optional keys are set only when their value is not \<^verbatim>\<open>None\<close>.
\<close>

definition new_row ::
  "string \<Rightarrow> int \<Rightarrow> real \<Rightarrow> real \<Rightarrow> string \<Rightarrow> cell option \<Rightarrow> cell option \<Rightarrow> row" where
  "new_row e d y rate m rp fr =
     \<lparr>expiry_date = e, days = d, years = y, discount_rate = rate, method_tag = m,
      put_strike = None, call_strike = None, put_price = None, call_price = None,
      put_iv = None, call_iv = None, iv_diff = None,
      reference_price = rp, forward_ratio = fr\<rparr>"

section \<open>Configuration\<close>

text \<open>
  \<^verbatim>\<open>DEFAULT_PARAMS\<close> of \<^verbatim>\<open>config/config.py\<close>, in the order of the dictionary display.
  Two keys occur twice there; in a Python dictionary display the later entry wins,
  which is what storing the items from left to right does.
\<close>

type_synonym params = "string \<rightharpoonup> pyval"

definition DEFAULT_PARAMS_items :: "(string \<times> pyval) list" where
  "DEFAULT_PARAMS_items =
    [(''initial_rate'', PFloat (5 / 100)),
     (''min_rate'', PFloat 0),
     (''max_rate'', PFloat (2 / 10)),
     (''fallback_growth'', PFloat (3 / 100)),
     (''consider_volume'', PBool False),
     (''reference_date'', PNone),
     (''monthlies'', PBool True),
     (''option_type'', PStr ''call''),
     (''q'', PFloat 0),
     (''max_iterations'', PInt 50),
     (''max_strike_diff_pct'', PFloat (5 / 100)),
     (''min_option_price'', PFloat 0),
     (''min_options_per_expiry'', PInt 2),
     (''volatility_lower_bound'', PFloat (1 / 1000)),
     (''volatility_upper_bound'', PInt 10),
     (''vol_lb_scalar'', PFloat (5 / 10)),
     (''vol_ub_scalar'', PFloat (15 / 10)),
     (''min_days'', PInt 7),
     (''min_volume'', PInt 0),
     (''wait_time'', PFloat (5 / 10)),
     (''forward_prices'', PNone),
     (''max_strike_diff_pct'', PFloat (5 / 10)),
     (''min_option_price'', PFloat 0),
     (''min_pair_volume'', PInt 0),
     (''best_pair_only'', PBool False),
     (''close_strike_min_pairs'', PInt 3),
     (''debug_threshold'', PFloat 0),
     (''min_forward_ratio'', PFloat (5 / 10)),
     (''max_forward_ratio'', PFloat 2),
     (''min_price'', PFloat 0),
     (''debug'', PBool True),
     (''save_output'', PBool False),
     (''skip_iv_calculation'', PBool True),
     (''use_forwards'', PBool True),
     (''calibration_method'', PStr ''direct''),
     (''min_int_rate'', PFloat (- (20 / 100))),
     (''max_int_rate'', PFloat 1)]"

fun dict_of_items :: "(string \<times> pyval) list \<Rightarrow> params \<Rightarrow> params" where
  "dict_of_items [] m = m"
| "dict_of_items ((k, v) # kvs) m = dict_of_items kvs (m(k \<mapsto> v))"

definition DEFAULT_PARAMS :: params where
  "DEFAULT_PARAMS = dict_of_items DEFAULT_PARAMS_items Map.empty"

text \<open>
  \<^verbatim>\<open>len(df) < params['min_options_per_expiry']\<close>: an integer compared with whatever value
  the caller passed. Numbers (and booleans, which are the integers 0 and 1) compare by
  value; a string or \<^verbatim>\<open>None\<close> raises TypeError.
\<close>

fun len_lt :: "nat \<Rightarrow> pyval \<Rightarrow> error + bool" where
  "len_lt n (PInt t) = Inr (int n < t)"
| "len_lt n (PFloat t) = Inr (real n < t)"
| "len_lt n (PBool b) = Inr (int n < (if b then 1 else 0))"
| "len_lt n (PStr s) = Inl TypeError"
| "len_lt n PNone = Inl TypeError"

section \<open>Interior interpolation\<close>

text \<open>
  One optional column of the interpolated row: present when both neighbours have the
  key (\<^verbatim>\<open>'reference_price' in before and 'reference_price' in after\<close>).
\<close>

definition interp_field :: "cell option \<Rightarrow> cell option \<Rightarrow> real \<Rightarrow> cell option" where
  "interp_field b a days_frac =
     (case (b, a) of
        (Some vb, Some va) \<Rightarrow> Some (vb + Num days_frac * (va - vb))
      | _ \<Rightarrow> None)"

text \<open>
  \<^verbatim>\<open>interpolate_rate\<close>. The neighbours lie strictly on either side of the target, so
  \<open>days_range\<close> is never zero and the branch of the model for a zero \<open>days_range\<close> is
  never taken (lemma \<open>interp_gap\<close>).
\<close>

definition interpolate_rate ::
  "dataframe \<Rightarrow> string \<Rightarrow> int \<Rightarrow> real \<Rightarrow> error + dataframe" where
  "interpolate_rate df e d y =
     (let before_df = sort_values False (filter (\<lambda>r. days r < d) df);
          after_df = sort_values True (filter (\<lambda>r. days r > d) df)
      in if before_df = [] \<or> after_df = [] then Inr df
         else
           (case iloc before_df 0 of Inl err \<Rightarrow> Inl err | Inr before_row \<Rightarrow>
           (case iloc after_df 0 of Inl err \<Rightarrow> Inl err | Inr after_row \<Rightarrow>
             let days_range = days after_row - days before_row
             in if days_range = 0 then Inl ZeroDivisionError
                else
                  let days_frac = real_of_int (d - days before_row) / real_of_int days_range;
                      rate = discount_rate before_row
                               + days_frac * (discount_rate after_row - discount_rate before_row);
                      rp = interp_field (reference_price before_row) (reference_price after_row)
                             days_frac;
                      fr = interp_field (forward_ratio before_row) (forward_ratio after_row)
                             days_frac
                  in Inr (df @ [new_row e d y rate ''interpolated'' rp fr]))))"

section \<open>Early and late extrapolation\<close>

text \<open>
  One optional column of the early-extrapolated row: the backward projection from
  \<open>first\<close>, then \<^verbatim>\<open>max(0.0, value)\<close>.
\<close>

definition early_field :: "cell option \<Rightarrow> cell option \<Rightarrow> int \<Rightarrow> int \<Rightarrow> cell option" where
  "early_field f s gap days_diff =
     (case (f, s) of
        (Some vf, Some vs) \<Rightarrow>
          Some (cell_max (Num 0) (vf - Num (real_of_int gap) * cell_div (vs - vf) days_diff))
      | _ \<Rightarrow> None)"

text \<open>
  The body of \<^verbatim>\<open>extrapolate_early\<close> after the effective parameters are built
  (from the length test on). The source does not test \<open>days_diff\<close>; when it is zero
  the slope is inf, -inf or nan and \<^verbatim>\<open>max(0.0, ...)\<close> turns the projection into 0.0 or
  leaves it at +inf.
\<close>

definition extrapolate_early_body ::
  "params \<Rightarrow> dataframe \<Rightarrow> string \<Rightarrow> int \<Rightarrow> real \<Rightarrow> error + dataframe" where
  "extrapolate_early_body ps df e d y =
     (case ps ''min_options_per_expiry'' of None \<Rightarrow> Inl KeyError | Some v \<Rightarrow>
     (case len_lt (length df) v of Inl err \<Rightarrow> Inl err | Inr too_few \<Rightarrow>
        if too_few then Inr df
        else
          (case iloc (sort_values True df) 0 of Inl err \<Rightarrow> Inl err | Inr first \<Rightarrow>
          (case iloc (sort_values True df) 1 of Inl err \<Rightarrow> Inl err | Inr second \<Rightarrow>
            let days_diff = days second - days first;
                rate_diff = discount_rate second - discount_rate first;
                daily_rate_change = cell_div (Num rate_diff) days_diff;
                extrapolated_rate =
                  cell_max (Num 0)
                    (Num (discount_rate first)
                       - Num (real_of_int (days first - d)) * daily_rate_change);
                rp = early_field (reference_price first) (reference_price second)
                       (days first - d) days_diff;
                fr = early_field (forward_ratio first) (forward_ratio second)
                       (days first - d) days_diff
            in (case extrapolated_rate of
                  Num rate \<Rightarrow> Inr (df @ [new_row e d y rate ''extrapolated'' rp fr])
                | _ \<Rightarrow> Inl InfiniteRate)))))"

text \<open>
  One optional column of the late-extrapolated row: the forward projection from
  \<open>last\<close>, then \<^verbatim>\<open>max(last[...], value)\<close>.
\<close>

definition late_field :: "cell option \<Rightarrow> cell option \<Rightarrow> int \<Rightarrow> int \<Rightarrow> cell option" where
  "late_field l s gap days_diff =
     (case (l, s) of
        (Some vl, Some vs) \<Rightarrow>
          Some (cell_max vl (vl + Num (real_of_int gap) * cell_div (vl - vs) days_diff))
      | _ \<Rightarrow> None)"

text \<open>
  The body of \<^verbatim>\<open>extrapolate_late\<close>. With \<open>days_diff\<close> zero the clamp
  \<^verbatim>\<open>max(0.0, min(0.2, ...))\<close> turns the projection into 0.0 or 0.2, so the rate is
  always a number here.
\<close>

definition extrapolate_late_body ::
  "params \<Rightarrow> dataframe \<Rightarrow> string \<Rightarrow> int \<Rightarrow> real \<Rightarrow> error + dataframe" where
  "extrapolate_late_body ps df e d y =
     (case ps ''min_options_per_expiry'' of None \<Rightarrow> Inl KeyError | Some v \<Rightarrow>
     (case len_lt (length df) v of Inl err \<Rightarrow> Inl err | Inr too_few \<Rightarrow>
        if too_few then Inr df
        else
          (case iloc (sort_values False df) 0 of Inl err \<Rightarrow> Inl err | Inr last_row \<Rightarrow>
          (case iloc (sort_values False df) 1 of Inl err \<Rightarrow> Inl err | Inr second_last \<Rightarrow>
            let days_diff = days last_row - days second_last;
                rate_diff = discount_rate last_row - discount_rate second_last;
                daily_rate_change = cell_div (Num rate_diff) days_diff;
                extrapolated_rate =
                  cell_max (Num 0) (cell_min (Num (2 / 10))
                    (Num (discount_rate last_row)
                       + Num (real_of_int (d - days last_row)) * daily_rate_change));
                rp = late_field (reference_price last_row) (reference_price second_last)
                       (d - days last_row) days_diff;
                fr = late_field (forward_ratio last_row) (forward_ratio second_last)
                       (d - days last_row) days_diff
            in (case extrapolated_rate of
                  Num rate \<Rightarrow> Inr (df @ [new_row e d y rate ''extrapolated'' rp fr])
                | _ \<Rightarrow> Inl InfiniteRate)))))"

text \<open>
  The two operations as a caller sees them with the module's \<^verbatim>\<open>DEFAULT_PARAMS\<close>:
  \<^verbatim>\<open>params = DEFAULT_PARAMS.copy(); params.update(kwargs)\<close>, then the body.
\<close>

definition extrapolate_early ::
  "dataframe \<Rightarrow> string \<Rightarrow> int \<Rightarrow> real \<Rightarrow> params \<Rightarrow> error + dataframe" where
  "extrapolate_early df e d y kwargs = extrapolate_early_body (DEFAULT_PARAMS ++ kwargs) df e d y"

definition extrapolate_late ::
  "dataframe \<Rightarrow> string \<Rightarrow> int \<Rightarrow> real \<Rightarrow> params \<Rightarrow> error + dataframe" where
  "extrapolate_late df e d y kwargs = extrapolate_late_body (DEFAULT_PARAMS ++ kwargs) df e d y"

section \<open>The shared default dictionary\<close>

text \<open>
  \<^verbatim>\<open>DEFAULT_PARAMS\<close> is one dictionary object that every call reads. To follow what a
  call does to it, dictionary objects live in a store: the list of all dictionary
  objects, an object's address being its position. The module's name
  \<^verbatim>\<open>DEFAULT_PARAMS\<close> is bound to address 0. \<^verbatim>\<open>d.copy()\<close> allocates a new object with the
  items of \<open>d\<close> (the values are immutable, so a shallow copy shares nothing that can
  change); \<^verbatim>\<open>d.update(kwargs)\<close> overwrites the object at the address of \<open>d\<close>.
\<close>

type_synonym store = "params list"

definition DEFAULT_PARAMS_ref :: nat where
  "DEFAULT_PARAMS_ref = 0"

definition dict_copy :: "store \<Rightarrow> nat \<Rightarrow> nat \<times> store" where
  "dict_copy st a = (length st, st @ [st ! a])"

definition dict_update :: "store \<Rightarrow> nat \<Rightarrow> params \<Rightarrow> store" where
  "dict_update st a kwargs = st[a := (st ! a) ++ kwargs]"

definition extrapolate_early_st ::
  "store \<Rightarrow> dataframe \<Rightarrow> string \<Rightarrow> int \<Rightarrow> real \<Rightarrow> params
     \<Rightarrow> (error + dataframe) \<times> store" where
  "extrapolate_early_st st df e d y kwargs =
     (let (ps, st1) = dict_copy st DEFAULT_PARAMS_ref;
          st2 = dict_update st1 ps kwargs
      in (extrapolate_early_body (st2 ! ps) df e d y, st2))"

definition extrapolate_late_st ::
  "store \<Rightarrow> dataframe \<Rightarrow> string \<Rightarrow> int \<Rightarrow> real \<Rightarrow> params
     \<Rightarrow> (error + dataframe) \<times> store" where
  "extrapolate_late_st st df e d y kwargs =
     (let (ps, st1) = dict_copy st DEFAULT_PARAMS_ref;
          st2 = dict_update st1 ps kwargs
      in (extrapolate_late_body (st2 ! ps) df e d y, st2))"

text \<open>A sequence of calls of the two operations, each with its own arguments.\<close>

datatype call =
    Early dataframe string int real params
  | Late dataframe string int real params

fun run_call :: "store \<Rightarrow> call \<Rightarrow> (error + dataframe) \<times> store" where
  "run_call st (Early df e d y kwargs) = extrapolate_early_st st df e d y kwargs"
| "run_call st (Late df e d y kwargs) = extrapolate_late_st st df e d y kwargs"

fun run_calls :: "store \<Rightarrow> call list \<Rightarrow> (error + dataframe) list \<times> store" where
  "run_calls st [] = ([], st)"
| "run_calls st (c # cs) =
     (let (r, st1) = run_call st c;
          (rs, st2) = run_calls st1 cs
      in (r # rs, st2))"

text \<open>The same call seen without the store, on the module's defaults.\<close>

fun call_result :: "call \<Rightarrow> error + dataframe" where
  "call_result (Early df e d y kwargs) = extrapolate_early df e d y kwargs"
| "call_result (Late df e d y kwargs) = extrapolate_late df e d y kwargs"

section \<open>Example tables\<close>

text \<open>
  An observed row as the extraction pipeline would supply it, and the small tables of
  the testable properties. \<open>no_kwargs\<close> is a call without keyword arguments.
\<close>

definition observed :: "string \<Rightarrow> int \<Rightarrow> real \<Rightarrow> cell option \<Rightarrow> cell option \<Rightarrow> row" where
  "observed e d rate rp fr =
     \<lparr>expiry_date = e, days = d, years = real_of_int d / 365, discount_rate = rate,
      method_tag = ''direct'',
      put_strike = Some 100, call_strike = Some 100, put_price = Some 4, call_price = Some 5,
      put_iv = None, call_iv = None, iv_diff = None,
      reference_price = rp, forward_ratio = fr\<rparr>"

definition no_kwargs :: params where
  "no_kwargs = Map.empty"

definition threshold_kwargs :: "pyval \<Rightarrow> params" where
  "threshold_kwargs v = [''min_options_per_expiry'' \<mapsto> v]"

definition noisy_kwargs :: params where
  "noisy_kwargs = [''debug'' \<mapsto> PBool False, ''max_rate'' \<mapsto> PFloat 9, ''colour'' \<mapsto> PStr ''red'']"

definition table_10_30 :: dataframe where
  "table_10_30 = [observed ''2025-01-11'' 10 (2 / 100) None None,
                  observed ''2025-01-31'' 30 (4 / 100) None None]"

definition table_10_20 :: dataframe where
  "table_10_20 = [observed ''2025-01-11'' 10 (1 / 100) (Some (Num 98)) (Some (Num 3)),
                  observed ''2025-01-21'' 20 (3 / 100) (Some (Num 200)) (Some (Num 2))]"

definition table_300_365 :: dataframe where
  "table_300_365 = [observed ''2025-10-28'' 300 (5 / 100) None None,
                    observed ''2026-01-01'' 365 (18 / 100) None None]"

definition table_falling_price :: dataframe where
  "table_falling_price = [observed ''2025-10-28'' 300 (5 / 100) (Some (Num 105)) (Some (Num 3)),
                          observed ''2025-11-07'' 310 (6 / 100) (Some (Num 100)) (Some (Num 2))]"


definition table_duplicate_days :: dataframe where
  "table_duplicate_days = [observed ''2025-01-11'' 10 (2 / 100) None None,
                           observed ''2025-01-11'' 10 (2 / 100) None None,
                           observed ''2025-01-31'' 30 (5 / 100) None None]"

definition table_duplicate_top :: dataframe where
  "table_duplicate_top = [observed ''2025-01-11'' 10 (2 / 100) None None,
                          observed ''2025-01-31'' 30 (4 / 100) None None,
                          observed ''2025-01-31'' 30 (4 / 100) None None]"

definition table_one_row :: dataframe where
  "table_one_row = [observed ''2025-01-11'' 10 (2 / 100) None None]"

definition example_calls :: "call list" where
  "example_calls =
     [Early table_10_30 ''2025-01-06'' 5 (5 / 365) (threshold_kwargs (PInt 3)),
      Late table_10_30 ''2025-03-01'' 60 (60 / 365) noisy_kwargs,
      Early table_10_30 ''2025-01-06'' 5 (5 / 365) no_kwargs]"

section \<open>Facts about the configuration and the sort\<close>

lemma default_min_options: "DEFAULT_PARAMS ''min_options_per_expiry'' = Some (PInt 2)"
  by (simp add: DEFAULT_PARAMS_def DEFAULT_PARAMS_items_def)

lemma effective_min_options:
  "(DEFAULT_PARAMS ++ kwargs) ''min_options_per_expiry'' =
     Some (case kwargs ''min_options_per_expiry'' of None \<Rightarrow> PInt 2 | Some v \<Rightarrow> v)"
  by (simp add: map_add_def default_min_options split: option.splits)

lemma set_sort_values [simp]: "set (sort_values a df) = set df"
  by (simp add: sort_values_def)

lemma length_sort_values [simp]: "length (sort_values a df) = length df"
  by (simp add: sort_values_def)

lemma sort_values_Nil_iff [simp]: "sort_values a df = [] \<longleftrightarrow> df = []"
  by (metis length_0_conv length_sort_values)

lemma sorted_asc: "sorted (map days (sort_values True df))"
  by (simp add: sort_values_def)

lemma sorted_desc: "sorted (rev (map days (sort_values False df)))"
  by (simp add: sort_values_def rev_map)

lemma distinct_sort_values:
  "distinct (map days df) \<Longrightarrow> distinct (map days (sort_values a df))"
  by (simp add: sort_values_def rev_map[symmetric] distinct_map inj_on_def)

lemma asc_nth_mono:
  assumes "i \<le> j" "j < length df"
  shows "days (sort_values True df ! i) \<le> days (sort_values True df ! j)"
proof -
  have "map days (sort_values True df) ! i \<le> map days (sort_values True df) ! j"
    using assms sorted_asc[of df] by (intro sorted_nth_mono) simp_all
  then show ?thesis using assms by simp
qed

lemma desc_nth_mono:
  assumes "i \<le> j" "j < length df"
  shows "days (sort_values False df ! j) \<le> days (sort_values False df ! i)"
proof -
  let ?ys = "map days (sort_values False df)"
  have len: "length ?ys = length df" by simp
  have "rev ?ys ! (length df - 1 - j) \<le> rev ?ys ! (length df - 1 - i)"
    using assms sorted_desc[of df] by (intro sorted_nth_mono) (simp_all add: len)
  then show ?thesis using assms by (simp add: rev_nth len)
qed

lemma nth_sort_values_mem: "i < length df \<Longrightarrow> sort_values a df ! i \<in> set df"
  by (metis length_sort_values nth_mem set_sort_values)

lemma days_nth_neq:
  assumes "distinct (map days df)" "i < length df" "j < length df" "i \<noteq> j"
  shows "days (sort_values a df ! i) \<noteq> days (sort_values a df ! j)"
proof -
  have "distinct (map days (sort_values a df))"
    using assms(1) by (rule distinct_sort_values)
  then have "map days (sort_values a df) ! i \<noteq> map days (sort_values a df) ! j"
    using assms nth_eq_iff_index_eq[of "map days (sort_values a df)" i j] by simp
  then show ?thesis using assms by simp
qed

text \<open>The two rows that early extrapolation anchors on are the two lowest-days rows.\<close>

lemma early_anchors:
  assumes "2 \<le> length df" "distinct (map days df)"
  defines "first \<equiv> sort_values True df ! 0" and "second \<equiv> sort_values True df ! 1"
  shows "first \<in> set df" "second \<in> set df" "days first < days second"
    "\<forall>r\<in>set df. r = first \<or> r = second \<or> days second < days r"
proof -
  have len: "0 < length df" "1 < length df" using assms(1) by linarith+
  show "first \<in> set df" unfolding first_def using len(1) by (rule nth_sort_values_mem)
  show "second \<in> set df" unfolding second_def using len(2) by (rule nth_sort_values_mem)
  have "days first \<le> days second"
    unfolding first_def second_def using asc_nth_mono[of 0 1 df] len(2) by simp
  moreover have "days first \<noteq> days second"
    unfolding first_def second_def using days_nth_neq[OF assms(2) len(1) len(2)] by simp
  ultimately show "days first < days second" by simp
  show "\<forall>r\<in>set df. r = first \<or> r = second \<or> days second < days r"
  proof
    fix r assume "r \<in> set df"
    then obtain i where i: "i < length df" "sort_values True df ! i = r"
      by (metis in_set_conv_nth length_sort_values set_sort_values)
    show "r = first \<or> r = second \<or> days second < days r"
    proof (cases "i \<le> 1")
      case True
      then have "i = 0 \<or> i = 1" by auto
      then show ?thesis using i by (auto simp: first_def second_def)
    next
      case False
      then have "days second \<le> days r"
        using i asc_nth_mono[of 1 i df] by (simp add: second_def)
      moreover have "days second \<noteq> days r"
        using i False days_nth_neq[OF assms(2) len(2) i(1), of True] by (simp add: second_def)
      ultimately show ?thesis by simp
    qed
  qed
qed

lemma late_anchors:
  assumes "2 \<le> length df" "distinct (map days df)"
  defines "last_row \<equiv> sort_values False df ! 0" and "second_last \<equiv> sort_values False df ! 1"
  shows "last_row \<in> set df" "second_last \<in> set df" "days second_last < days last_row"
    "\<forall>r\<in>set df. r = last_row \<or> r = second_last \<or> days r < days second_last"
proof -
  have len: "0 < length df" "1 < length df" using assms(1) by linarith+
  show "last_row \<in> set df" unfolding last_row_def using len(1) by (rule nth_sort_values_mem)
  show "second_last \<in> set df" unfolding second_last_def using len(2) by (rule nth_sort_values_mem)
  have "days second_last \<le> days last_row"
    unfolding last_row_def second_last_def using desc_nth_mono[of 0 1 df] len(2) by simp
  moreover have "days last_row \<noteq> days second_last"
    unfolding last_row_def second_last_def using days_nth_neq[OF assms(2) len(1) len(2)] by simp
  ultimately show "days second_last < days last_row" by simp
  show "\<forall>r\<in>set df. r = last_row \<or> r = second_last \<or> days r < days second_last"
  proof
    fix r assume "r \<in> set df"
    then obtain i where i: "i < length df" "sort_values False df ! i = r"
      by (metis in_set_conv_nth length_sort_values set_sort_values)
    show "r = last_row \<or> r = second_last \<or> days r < days second_last"
    proof (cases "i \<le> 1")
      case True
      then have "i = 0 \<or> i = 1" by auto
      then show ?thesis using i by (auto simp: last_row_def second_last_def)
    next
      case False
      then have "days r \<le> days second_last"
        using i desc_nth_mono[of 1 i df] by (simp add: second_last_def)
      moreover have "days second_last \<noteq> days r"
        using i False days_nth_neq[OF assms(2) len(2) i(1), of False] by (simp add: second_last_def)
      ultimately show ?thesis by simp
    qed
  qed
qed

text \<open>The neighbours interpolation selects.\<close>

lemma interp_before:
  assumes "filter (\<lambda>r. days r < d) df \<noteq> []"
  defines "before \<equiv> sort_values False (filter (\<lambda>r. days r < d) df) ! 0"
  shows "before \<in> set df" "days before < d" "\<forall>r\<in>set df. days r < d \<longrightarrow> days r \<le> days before"
proof -
  let ?bs = "filter (\<lambda>r. days r < d) df"
  have len: "0 < length ?bs" using assms(1) by simp
  have mem: "before \<in> set ?bs"
    unfolding before_def using len by (rule nth_sort_values_mem)
  then show "before \<in> set df" "days before < d" by simp_all
  show "\<forall>r\<in>set df. days r < d \<longrightarrow> days r \<le> days before"
  proof (intro ballI impI)
    fix r assume "r \<in> set df" "days r < d"
    then have "r \<in> set ?bs" by simp
    then obtain i where i: "i < length ?bs" "sort_values False ?bs ! i = r"
      by (metis in_set_conv_nth length_sort_values set_sort_values)
    then show "days r \<le> days before"
      using desc_nth_mono[of 0 i ?bs] by (simp add: before_def)
  qed
qed

lemma interp_after:
  assumes "filter (\<lambda>r. days r > d) df \<noteq> []"
  defines "after \<equiv> sort_values True (filter (\<lambda>r. days r > d) df) ! 0"
  shows "after \<in> set df" "d < days after" "\<forall>r\<in>set df. d < days r \<longrightarrow> days after \<le> days r"
proof -
  let ?as = "filter (\<lambda>r. days r > d) df"
  have len: "0 < length ?as" using assms(1) by simp
  have mem: "after \<in> set ?as"
    unfolding after_def using len by (rule nth_sort_values_mem)
  then show "after \<in> set df" "d < days after" by simp_all
  show "\<forall>r\<in>set df. d < days r \<longrightarrow> days after \<le> days r"
  proof (intro ballI impI)
    fix r assume "r \<in> set df" "d < days r"
    then have "r \<in> set ?as" by simp
    then obtain i where i: "i < length ?as" "sort_values True ?as ! i = r"
      by (metis in_set_conv_nth length_sort_values set_sort_values)
    then show "days after \<le> days r"
      using asc_nth_mono[of 0 i ?as] by (simp add: after_def)
  qed
qed

lemma cell_Num_arith:
  "Num a + Num b = Num (a + b)" "Num a - Num b = Num (a - b)" "Num a * Num b = Num (a * b)"
  by (simp_all add: plus_cell_def minus_cell_def times_cell_def)

lemma cell_div_Num: "n \<noteq> 0 \<Longrightarrow> cell_div (Num a) n = Num (a / real_of_int n)"
  by simp

lemma cell_min_Num: "cell_min (Num a) (Num b) = Num (min a b)"
  by (simp add: cell_min_def min_def)

lemma cell_max_Num: "cell_max (Num a) (Num b) = Num (max a b)"
  by (simp add: cell_max_def max_def)

lemma iloc_sort_values:
  "i < length df \<Longrightarrow> iloc (sort_values a df) i = Inr (sort_values a df ! i)"
  by (simp add: iloc_def)

text \<open>What interpolation returns once both partitions are non-empty.\<close>

lemma interpolate_rate_appends:
  assumes "filter (\<lambda>r. days r < d) df \<noteq> []" "filter (\<lambda>r. days r > d) df \<noteq> []"
  defines "before \<equiv> sort_values False (filter (\<lambda>r. days r < d) df) ! 0"
      and "after \<equiv> sort_values True (filter (\<lambda>r. days r > d) df) ! 0"
  defines "days_frac \<equiv> real_of_int (d - days before) / real_of_int (days after - days before)"
  shows "interpolate_rate df e d y =
           Inr (df @ [new_row e d y
             (discount_rate before + days_frac * (discount_rate after - discount_rate before))
             ''interpolated''
             (interp_field (reference_price before) (reference_price after) days_frac)
             (interp_field (forward_ratio before) (forward_ratio after) days_frac)])"
proof -
  have "days before < d" "d < days after"
    unfolding before_def after_def using assms(1,2) interp_before(2) interp_after(2) by blast+
  then have "days after - days before \<noteq> 0" by simp
  then show ?thesis
    using assms(1,2)
    by (simp add: interpolate_rate_def iloc_def Let_def before_def after_def days_frac_def)
qed

lemma extrapolate_early_body_appends:
  assumes "ps ''min_options_per_expiry'' = Some v" "len_lt (length df) v = Inr False"
    "2 \<le> length df"
  defines "first \<equiv> sort_values True df ! 0" and "second \<equiv> sort_values True df ! 1"
  assumes "days first \<noteq> days second"
  shows "extrapolate_early_body ps df e d y =
           Inr (df @ [new_row e d y
             (max 0 (discount_rate first - real_of_int (days first - d)
                 * ((discount_rate second - discount_rate first)
                      / real_of_int (days second - days first))))
             ''extrapolated''
             (early_field (reference_price first) (reference_price second)
                (days first - d) (days second - days first))
             (early_field (forward_ratio first) (forward_ratio second)
                (days first - d) (days second - days first))])"
proof -
  have len: "0 < length df" "1 < length df" using assms(3) by linarith+
  have il: "iloc (sort_values True df) 0 = Inr first" "iloc (sort_values True df) 1 = Inr second"
    unfolding first_def second_def using len by (simp_all add: iloc_def)
  have nz: "days second \<noteq> days first" using assms(6) by simp
  show ?thesis
    unfolding extrapolate_early_body_def
    by (simp add: assms(1,2) il il(2)[unfolded One_nat_def] nz Let_def cell_Num_arith
          cell_max_Num)
qed

lemma extrapolate_late_body_appends:
  assumes "ps ''min_options_per_expiry'' = Some v" "len_lt (length df) v = Inr False"
    "2 \<le> length df"
  defines "last_row \<equiv> sort_values False df ! 0" and "second_last \<equiv> sort_values False df ! 1"
  assumes "days last_row \<noteq> days second_last"
  shows "extrapolate_late_body ps df e d y =
           Inr (df @ [new_row e d y
             (max 0 (min (2 / 10) (discount_rate last_row + real_of_int (d - days last_row)
                 * ((discount_rate last_row - discount_rate second_last)
                      / real_of_int (days last_row - days second_last)))))
             ''extrapolated''
             (late_field (reference_price last_row) (reference_price second_last)
                (d - days last_row) (days last_row - days second_last))
             (late_field (forward_ratio last_row) (forward_ratio second_last)
                (d - days last_row) (days last_row - days second_last))])"
proof -
  have len: "0 < length df" "1 < length df" using assms(3) by linarith+
  have il: "iloc (sort_values False df) 0 = Inr last_row"
    "iloc (sort_values False df) 1 = Inr second_last"
    unfolding last_row_def second_last_def using len by (simp_all add: iloc_def)
  have nz: "days last_row \<noteq> days second_last" using assms(6) by simp
  show ?thesis
    unfolding extrapolate_late_body_def
    by (simp add: assms(1,2) il il(2)[unfolded One_nat_def] nz Let_def cell_Num_arith
          cell_max_Num cell_min_Num)
qed

section \<open>Interior interpolation is linear between the closest neighbours\<close>

text \<open>
  Claim C1. When the table has a row with days strictly below the target and a row
  with days strictly above it, \<open>interpolate_rate\<close> returns the table with exactly one
  new row appended. Its discount rate is
  \<open>before.discount_rate + f * (after.discount_rate - before.discount_rate)\<close> with
  \<open>f = (days - before.days) / (after.days - before.days)\<close>, where \<open>before\<close> is a row
  of the table with the largest days below the target and \<open>after\<close> a row with the
  smallest days above it.
\<close>

theorem interpolate_rate_linear:
  assumes "\<exists>r\<in>set df. days r < d" and "\<exists>r\<in>set df. d < days r"
  shows "\<exists>before after.
           before \<in> set df \<and> days before < d \<and>
           (\<forall>r\<in>set df. days r < d \<longrightarrow> days r \<le> days before) \<and>
           after \<in> set df \<and> d < days after \<and>
           (\<forall>r\<in>set df. d < days r \<longrightarrow> days after \<le> days r) \<and>
           (\<exists>new. interpolate_rate df e d y = Inr (df @ [new]) \<and>
              discount_rate new =
                discount_rate before
                  + (real_of_int (d - days before) / real_of_int (days after - days before))
                      * (discount_rate after - discount_rate before))"
proof -
  let ?before = "sort_values False (filter (\<lambda>r. days r < d) df) ! 0"
  let ?after = "sort_values True (filter (\<lambda>r. days r > d) df) ! 0"
  have b: "filter (\<lambda>r. days r < d) df \<noteq> []"
    using assms(1) by (simp add: filter_empty_conv)
  have a: "filter (\<lambda>r. days r > d) df \<noteq> []"
    using assms(2) by (simp add: filter_empty_conv)
  have "\<exists>new. interpolate_rate df e d y = Inr (df @ [new]) \<and>
              discount_rate new =
                discount_rate ?before
                  + (real_of_int (d - days ?before) / real_of_int (days ?after - days ?before))
                      * (discount_rate ?after - discount_rate ?before)"
    by (subst interpolate_rate_appends[OF b a]) (simp add: new_row_def)
  then show ?thesis
    using interp_before[OF b] interp_after[OF a] by blast
qed

text \<open>
  The table of property P1: rows at 10 days (rate 0.02) and 30 days (rate 0.04),
  target 20 days. The appended rate is 0.03.
\<close>

theorem interpolate_rate_linear_witness:
  "(\<exists>r\<in>set table_10_30. days r < 20) \<and> (\<exists>r\<in>set table_10_30. 20 < days r) \<and>
   (\<exists>new. interpolate_rate table_10_30 ''2025-01-21'' 20 (20 / 365) = Inr (table_10_30 @ [new])
      \<and> discount_rate new = 3 / 100)"
proof -
  have h1: "\<exists>r\<in>set table_10_30. days r < 20"
    by (simp add: table_10_30_def observed_def)
  have h2: "\<exists>r\<in>set table_10_30. 20 < days r"
    by (simp add: table_10_30_def observed_def)
  from interpolate_rate_linear[OF h1 h2, of "''2025-01-21''" "20 / 365"]
  obtain b a new where
    b: "b \<in> set table_10_30" "days b < 20" and
    a: "a \<in> set table_10_30" "20 < days a" and
    res: "interpolate_rate table_10_30 ''2025-01-21'' 20 (20 / 365) = Inr (table_10_30 @ [new])" and
    rate: "discount_rate new =
             discount_rate b + (real_of_int (20 - days b) / real_of_int (days a - days b))
               * (discount_rate a - discount_rate b)"
    by blast
  have "b = observed ''2025-01-11'' 10 (2 / 100) None None"
    using b by (auto simp: table_10_30_def observed_def)
  moreover have "a = observed ''2025-01-31'' 30 (4 / 100) None None"
    using a by (auto simp: table_10_30_def observed_def)
  ultimately have "discount_rate new = 3 / 100"
    using rate by (simp add: observed_def)
  with h1 h2 res show ?thesis by blast
qed

section \<open>Insufficient data returns the table unchanged\<close>

text \<open>
  Claim C2. \<open>interpolate_rate\<close> returns its input table, and raises nothing, when no
  row has days strictly below the target or no row has days strictly above it.
  \<open>extrapolate_early\<close> and \<open>extrapolate_late\<close> return their input table, and raise
  nothing, when the number of rows is less than the effective
  \<open>min_options_per_expiry\<close>, whatever the target; without an override the threshold
  is 2.
\<close>

theorem insufficient_data_unchanged:
  "((\<forall>r\<in>set df. \<not> days r < d) \<or> (\<forall>r\<in>set df. \<not> d < days r)
      \<longrightarrow> interpolate_rate df e d y = Inr df) \<and>
   ((DEFAULT_PARAMS ++ kwargs) ''min_options_per_expiry'' = Some v \<and>
    len_lt (length df) v = Inr True
      \<longrightarrow> extrapolate_early df e d y kwargs = Inr df \<and>
          extrapolate_late df e d y kwargs = Inr df) \<and>
   (kwargs ''min_options_per_expiry'' = None \<and> length df < 2
      \<longrightarrow> extrapolate_early df e d y kwargs = Inr df \<and>
          extrapolate_late df e d y kwargs = Inr df)"
proof (intro conjI impI)
  assume "(\<forall>r\<in>set df. \<not> days r < d) \<or> (\<forall>r\<in>set df. \<not> d < days r)"
  then have "filter (\<lambda>r. days r < d) df = [] \<or> filter (\<lambda>r. days r > d) df = []"
    by (simp add: filter_empty_conv)
  then show "interpolate_rate df e d y = Inr df"
    by (auto simp: interpolate_rate_def)
next
  assume h: "(DEFAULT_PARAMS ++ kwargs) ''min_options_per_expiry'' = Some v \<and>
    len_lt (length df) v = Inr True"
  then show "extrapolate_early df e d y kwargs = Inr df"
    by (simp add: extrapolate_early_def extrapolate_early_body_def)
  from h show "extrapolate_late df e d y kwargs = Inr df"
    by (simp add: extrapolate_late_def extrapolate_late_body_def)
next
  assume h: "kwargs ''min_options_per_expiry'' = None \<and> length df < 2"
  then have eff: "(DEFAULT_PARAMS ++ kwargs) ''min_options_per_expiry'' = Some (PInt 2)"
    by (simp add: effective_min_options)
  show "extrapolate_early df e d y kwargs = Inr df"
    using h by (simp add: extrapolate_early_def extrapolate_early_body_def eff)
  show "extrapolate_late df e d y kwargs = Inr df"
    using h by (simp add: extrapolate_late_def extrapolate_late_body_def eff)
qed

text \<open>
  Property P2: the table with rows at 10 and 30 days and target 5 days comes back
  unchanged. Property P8: a two-row table under the override 3, and a one-row table
  under the defaults, come back unchanged from both extrapolators.
\<close>

theorem insufficient_data_unchanged_witness:
  "interpolate_rate table_10_30 ''2025-01-06'' 5 (5 / 365) = Inr table_10_30 \<and>
   extrapolate_early table_10_30 ''2025-01-06'' 5 (5 / 365) (threshold_kwargs (PInt 3))
     = Inr table_10_30 \<and>
   extrapolate_late table_10_30 ''2025-03-01'' 60 (60 / 365) (threshold_kwargs (PInt 3))
     = Inr table_10_30 \<and>
   extrapolate_early table_one_row ''2025-01-06'' 5 (5 / 365) no_kwargs = Inr table_one_row \<and>
   extrapolate_late table_one_row ''2025-03-01'' 60 (60 / 365) no_kwargs = Inr table_one_row"
proof -
  have p2: "(\<forall>r\<in>set table_10_30. \<not> days r < 5) \<or> (\<forall>r\<in>set table_10_30. \<not> 5 < days r)"
    by (simp add: table_10_30_def observed_def)
  have k3: "(DEFAULT_PARAMS ++ threshold_kwargs (PInt 3)) ''min_options_per_expiry'' = Some (PInt 3)
              \<and> len_lt (length table_10_30) (PInt 3) = Inr True"
    by (simp add: threshold_kwargs_def table_10_30_def)
  have k0: "no_kwargs ''min_options_per_expiry'' = None \<and> length table_one_row < 2"
    by (simp add: no_kwargs_def table_one_row_def)
  note t = insufficient_data_unchanged
  note a = t[where df = table_10_30 and d = 5, THEN conjunct1, THEN mp, OF p2]
  note b = t[where df = table_10_30 and kwargs = "threshold_kwargs (PInt 3)" and v = "PInt 3",
             THEN conjunct2, THEN conjunct1, THEN mp, OF k3]
  note c = t[where df = table_one_row and kwargs = no_kwargs,
             THEN conjunct2, THEN conjunct2, THEN mp, OF k0]
  show ?thesis
    by (simp add: a b c)
qed

section \<open>The optional fields on numbers\<close>

lemma early_field_Num:
  "dd \<noteq> 0 \<Longrightarrow>
   early_field (Some (Num a)) (Some (Num b)) gap dd =
     Some (Num (max 0 (a - real_of_int gap * ((b - a) / real_of_int dd))))"
  by (simp add: early_field_def cell_max_Num cell_Num_arith)

lemma late_field_Num:
  "dd \<noteq> 0 \<Longrightarrow>
   late_field (Some (Num l)) (Some (Num s)) gap dd =
     Some (Num (max l (l + real_of_int gap * ((l - s) / real_of_int dd))))"
  by (simp add: late_field_def cell_max_Num cell_Num_arith)

lemma clamp_band: "0 \<le> max 0 (min (2 / 10) (x::real)) \<and> max 0 (min (2 / 10) x) \<le> 2 / 10"
  by (simp add: max_def min_def)

section \<open>Late extrapolation of the discount rate\<close>

text \<open>
  Claim C5. On a table with at least two rows (days unique, as the data model
  requires, and the row count not below the effective \<open>min_options_per_expiry\<close>),
  \<open>extrapolate_late\<close> appends one row whose discount rate is
  \<open>last.discount_rate + (days - last.days) * slope\<close> clamped into \<open>[0, 0.2]\<close>, where
  \<open>last\<close> and \<open>second_last\<close> are the two rows with the highest days and
  \<open>slope = (last.discount_rate - second_last.discount_rate) / (last.days - second_last.days)\<close>.
\<close>

theorem extrapolate_late_rate_clamped:
  assumes "2 \<le> length df" and "distinct (map days df)"
    and "(DEFAULT_PARAMS ++ kwargs) ''min_options_per_expiry'' = Some v"
    and "len_lt (length df) v = Inr False"
  shows "\<exists>last_row second_last.
           last_row \<in> set df \<and> second_last \<in> set df \<and> days second_last < days last_row \<and>
           (\<forall>r\<in>set df. r = last_row \<or> r = second_last \<or> days r < days second_last) \<and>
           (\<exists>new. extrapolate_late df e d y kwargs = Inr (df @ [new]) \<and>
              discount_rate new =
                max 0 (min (2 / 10)
                  (discount_rate last_row + real_of_int (d - days last_row)
                     * ((discount_rate last_row - discount_rate second_last)
                          / real_of_int (days last_row - days second_last)))) \<and>
              0 \<le> discount_rate new \<and> discount_rate new \<le> 2 / 10)"
proof -
  let ?l = "sort_values False df ! 0" and ?s = "sort_values False df ! 1"
  note anchors = late_anchors[OF assms(1,2)]
  have ne: "days ?l \<noteq> days ?s" using anchors(3) by simp
  let ?raw = "discount_rate ?l + real_of_int (d - days ?l)
                * ((discount_rate ?l - discount_rate ?s) / real_of_int (days ?l - days ?s))"
  let ?new = "new_row e d y (max 0 (min (2 / 10) ?raw)) ''extrapolated''
                (late_field (reference_price ?l) (reference_price ?s)
                   (d - days ?l) (days ?l - days ?s))
                (late_field (forward_ratio ?l) (forward_ratio ?s)
                   (d - days ?l) (days ?l - days ?s))"
  have res: "extrapolate_late df e d y kwargs = Inr (df @ [?new])"
    unfolding extrapolate_late_def
    by (rule extrapolate_late_body_appends[where ps = "DEFAULT_PARAMS ++ kwargs",
          OF assms(3,4,1) ne])
  have rate: "discount_rate ?new = max 0 (min (2 / 10) ?raw)"
    by (simp add: new_row_def)
  have "0 \<le> discount_rate ?new \<and> discount_rate ?new \<le> 2 / 10"
    unfolding rate by (rule clamp_band)
  with res rate
  have "\<exists>new. extrapolate_late df e d y kwargs = Inr (df @ [new]) \<and>
              discount_rate new = max 0 (min (2 / 10) ?raw) \<and>
              0 \<le> discount_rate new \<and> discount_rate new \<le> 2 / 10"
    by blast
  then show ?thesis using anchors by blast
qed

text \<open>
  Property P4: rows at 300 days (rate 0.05) and 365 days (rate 0.18), target 730
  days. The raw projection is 0.91 and the appended rate is exactly 0.2.
\<close>

theorem extrapolate_late_rate_clamped_witness:
  "2 \<le> length table_300_365 \<and> distinct (map days table_300_365) \<and>
   (DEFAULT_PARAMS ++ no_kwargs) ''min_options_per_expiry'' = Some (PInt 2) \<and>
   len_lt (length table_300_365) (PInt 2) = Inr False \<and>
   (\<exists>new. extrapolate_late table_300_365 ''2027-01-01'' 730 2 no_kwargs
            = Inr (table_300_365 @ [new]) \<and> discount_rate new = 2 / 10)"
proof -
  have h1: "2 \<le> length table_300_365" by (simp add: table_300_365_def)
  have h2: "distinct (map days table_300_365)" by (simp add: table_300_365_def observed_def)
  have h3: "(DEFAULT_PARAMS ++ no_kwargs) ''min_options_per_expiry'' = Some (PInt 2)"
    by (simp add: default_min_options no_kwargs_def)
  have h4: "len_lt (length table_300_365) (PInt 2) = Inr False"
    by (simp add: table_300_365_def)
  from extrapolate_late_rate_clamped[OF h1 h2 h3 h4, of "''2027-01-01''" 730 2]
  obtain l s new where
    mem: "l \<in> set table_300_365" "s \<in> set table_300_365" and lt: "days s < days l" and
    res: "extrapolate_late table_300_365 ''2027-01-01'' 730 2 no_kwargs
            = Inr (table_300_365 @ [new])" and
    rate: "discount_rate new =
             max 0 (min (2 / 10) (discount_rate l + real_of_int (730 - days l)
               * ((discount_rate l - discount_rate s) / real_of_int (days l - days s))))"
    by blast
  have "l = observed ''2026-01-01'' 365 (18 / 100) None None
          \<and> s = observed ''2025-10-28'' 300 (5 / 100) None None"
    using mem lt by (auto simp: table_300_365_def observed_def)
  then have "discount_rate new = 2 / 10"
    using rate by (simp add: observed_def)
  with h1 h2 h3 h4 res show ?thesis by blast
qed

section \<open>Early extrapolation: backward projection floored at zero\<close>

text \<open>
  Claim C6. On a table with at least two rows (days unique, and the row count not
  below the effective \<open>min_options_per_expiry\<close>), \<open>extrapolate_early\<close> appends one row
  whose discount rate is \<open>first.discount_rate - (first.days - days) * slope\<close> floored
  at 0 and with no ceiling, where \<open>first\<close> and \<open>second\<close> are the two rows with the
  lowest days and
  \<open>slope = (second.discount_rate - first.discount_rate) / (second.days - first.days)\<close>:
  a negative projection gives exactly 0, any other projection is kept as it is. The
  same projection and floor give \<open>reference_price\<close> and \<open>forward_ratio\<close>, each on its
  own, when both anchor rows hold a number there.
\<close>

theorem extrapolate_early_rate_floored:
  assumes "2 \<le> length df" and "distinct (map days df)"
    and "(DEFAULT_PARAMS ++ kwargs) ''min_options_per_expiry'' = Some v"
    and "len_lt (length df) v = Inr False"
  shows "\<exists>first second.
           first \<in> set df \<and> second \<in> set df \<and> days first < days second \<and>
           (\<forall>r\<in>set df. r = first \<or> r = second \<or> days second < days r) \<and>
           (\<exists>new project.
              project = (\<lambda>f s. f - real_of_int (days first - d)
                                    * ((s - f) / real_of_int (days second - days first))) \<and>
              extrapolate_early df e d y kwargs = Inr (df @ [new]) \<and>
              discount_rate new = max 0 (project (discount_rate first) (discount_rate second)) \<and>
              (project (discount_rate first) (discount_rate second) < 0
                 \<longrightarrow> discount_rate new = 0) \<and>
              (0 \<le> project (discount_rate first) (discount_rate second)
                 \<longrightarrow> discount_rate new = project (discount_rate first) (discount_rate second)) \<and>
              (\<forall>a b. reference_price first = Some (Num a) \<and> reference_price second = Some (Num b)
                 \<longrightarrow> reference_price new = Some (Num (max 0 (project a b)))) \<and>
              (\<forall>a b. forward_ratio first = Some (Num a) \<and> forward_ratio second = Some (Num b)
                 \<longrightarrow> forward_ratio new = Some (Num (max 0 (project a b)))))"
proof -
  let ?f = "sort_values True df ! 0" and ?s = "sort_values True df ! 1"
  note anchors = early_anchors[OF assms(1,2)]
  have ne: "days ?f \<noteq> days ?s" using anchors(3) by simp
  have nz: "days ?s - days ?f \<noteq> 0" using anchors(3) by simp
  define project where
    "project = (\<lambda>f s. f - real_of_int (days ?f - d) * ((s - f) / real_of_int (days ?s - days ?f)))"
  let ?new = "new_row e d y (max 0 (project (discount_rate ?f) (discount_rate ?s)))
                ''extrapolated''
                (early_field (reference_price ?f) (reference_price ?s)
                   (days ?f - d) (days ?s - days ?f))
                (early_field (forward_ratio ?f) (forward_ratio ?s)
                   (days ?f - d) (days ?s - days ?f))"
  have res: "extrapolate_early df e d y kwargs = Inr (df @ [?new])"
    unfolding extrapolate_early_def project_def
    by (rule extrapolate_early_body_appends[where ps = "DEFAULT_PARAMS ++ kwargs",
          OF assms(3,4,1) ne])
  have rate: "discount_rate ?new = max 0 (project (discount_rate ?f) (discount_rate ?s))"
    by (simp add: new_row_def)
  have neg: "project (discount_rate ?f) (discount_rate ?s) < 0 \<longrightarrow> discount_rate ?new = 0"
    unfolding rate by simp
  have pos: "0 \<le> project (discount_rate ?f) (discount_rate ?s)
               \<longrightarrow> discount_rate ?new = project (discount_rate ?f) (discount_rate ?s)"
    unfolding rate by simp
  have rp: "\<forall>a b. reference_price ?f = Some (Num a) \<and> reference_price ?s = Some (Num b)
                 \<longrightarrow> reference_price ?new = Some (Num (max 0 (project a b)))"
    by (simp add: new_row_def early_field_Num[OF nz[unfolded One_nat_def]] project_def)
  have fr: "\<forall>a b. forward_ratio ?f = Some (Num a) \<and> forward_ratio ?s = Some (Num b)
                 \<longrightarrow> forward_ratio ?new = Some (Num (max 0 (project a b)))"
    by (simp add: new_row_def early_field_Num[OF nz[unfolded One_nat_def]] project_def)
  from res rate neg pos rp fr project_def anchors show ?thesis
    by blast
qed

text \<open>
  Rows at 10 days (rate 0.01, price 98, ratio 3) and 20 days (rate 0.03, price 200,
  ratio 2), target 0 days: the rate projects to -0.01 and the price to -4, both
  floored to 0; the ratio projects to 4 and is kept.
\<close>

theorem extrapolate_early_rate_floored_witness:
  "2 \<le> length table_10_20 \<and> distinct (map days table_10_20) \<and>
   (DEFAULT_PARAMS ++ no_kwargs) ''min_options_per_expiry'' = Some (PInt 2) \<and>
   len_lt (length table_10_20) (PInt 2) = Inr False \<and>
   (\<exists>new. extrapolate_early table_10_20 ''2025-01-01'' 0 0 no_kwargs
            = Inr (table_10_20 @ [new]) \<and>
          discount_rate new = 0 \<and> reference_price new = Some (Num 0) \<and>
          forward_ratio new = Some (Num 4))"
proof -
  have h1: "2 \<le> length table_10_20" by (simp add: table_10_20_def)
  have h2: "distinct (map days table_10_20)" by (simp add: table_10_20_def observed_def)
  have h3: "(DEFAULT_PARAMS ++ no_kwargs) ''min_options_per_expiry'' = Some (PInt 2)"
    by (simp add: default_min_options no_kwargs_def)
  have h4: "len_lt (length table_10_20) (PInt 2) = Inr False"
    by (simp add: table_10_20_def)
  from extrapolate_early_rate_floored[OF h1 h2 h3 h4, where e = "''2025-01-01''" and d = 0 and y = 0]
  obtain f s new project where
    mem: "f \<in> set table_10_20" "s \<in> set table_10_20" and lt: "days f < days s" and
    proj: "project = (\<lambda>a b. a - real_of_int (days f - 0)
                                 * ((b - a) / real_of_int (days s - days f)))" and
    res: "extrapolate_early table_10_20 ''2025-01-01'' 0 0 no_kwargs
            = Inr (table_10_20 @ [new])" and
    rate: "discount_rate new = max 0 (project (discount_rate f) (discount_rate s))" and
    rp: "\<forall>a b. reference_price f = Some (Num a) \<and> reference_price s = Some (Num b)
           \<longrightarrow> reference_price new = Some (Num (max 0 (project a b)))" and
    fr: "\<forall>a b. forward_ratio f = Some (Num a) \<and> forward_ratio s = Some (Num b)
           \<longrightarrow> forward_ratio new = Some (Num (max 0 (project a b)))"
    by blast
  have fs: "f = observed ''2025-01-11'' 10 (1 / 100) (Some (Num 98)) (Some (Num 3))
          \<and> s = observed ''2025-01-21'' 20 (3 / 100) (Some (Num 200)) (Some (Num 2))"
    using mem lt by (auto simp: table_10_20_def observed_def)
  have r1: "discount_rate new = 0"
    using rate fs by (simp add: proj observed_def)
  have r2: "reference_price new = Some (Num 0)"
    using rp[rule_format, of 98 200] fs by (simp add: proj observed_def)
  have r3: "forward_ratio new = Some (Num 4)"
    using fr[rule_format, of 3 2] fs by (simp add: proj observed_def)
  from h1 h2 h3 h4 res r1 r2 r3 show ?thesis by blast
qed

section \<open>Late extrapolation never lets a price or ratio fall\<close>

text \<open>
  Claim C7. In \<open>extrapolate_late\<close>, when both of the two highest-days rows hold a
  number for \<open>reference_price\<close> (and likewise, on its own, for \<open>forward_ratio\<close>), the
  appended value is the forward projection \<open>last + (days - last.days) * slope\<close>
  clamped from below at the value of \<open>last\<close> and not clamped from above: it is never
  below the value of \<open>last\<close>, and every projection at or above that value is kept as
  it is.
\<close>

theorem extrapolate_late_price_floor:
  assumes "2 \<le> length df" and "distinct (map days df)"
    and "(DEFAULT_PARAMS ++ kwargs) ''min_options_per_expiry'' = Some v"
    and "len_lt (length df) v = Inr False"
  shows "\<exists>last_row second_last.
           last_row \<in> set df \<and> second_last \<in> set df \<and> days second_last < days last_row \<and>
           (\<forall>r\<in>set df. r = last_row \<or> r = second_last \<or> days r < days second_last) \<and>
           (\<exists>new project.
              project = (\<lambda>l s. l + real_of_int (d - days last_row)
                                    * ((l - s) / real_of_int (days last_row - days second_last))) \<and>
              extrapolate_late df e d y kwargs = Inr (df @ [new]) \<and>
              (\<forall>l s. reference_price last_row = Some (Num l) \<and>
                     reference_price second_last = Some (Num s)
                 \<longrightarrow> reference_price new = Some (Num (max l (project l s))) \<and>
                     (project l s < l \<longrightarrow> reference_price new = Some (Num l)) \<and>
                     (l \<le> project l s \<longrightarrow> reference_price new = Some (Num (project l s)))) \<and>
              (\<forall>l s. forward_ratio last_row = Some (Num l) \<and>
                     forward_ratio second_last = Some (Num s)
                 \<longrightarrow> forward_ratio new = Some (Num (max l (project l s))) \<and>
                     (project l s < l \<longrightarrow> forward_ratio new = Some (Num l)) \<and>
                     (l \<le> project l s \<longrightarrow> forward_ratio new = Some (Num (project l s)))))"
proof -
  let ?l = "sort_values False df ! 0" and ?s = "sort_values False df ! 1"
  note anchors = late_anchors[OF assms(1,2)]
  have ne: "days ?l \<noteq> days ?s" using anchors(3) by simp
  have nz: "days ?l - days ?s \<noteq> 0" using anchors(3) by simp
  define project where
    "project = (\<lambda>l s. l + real_of_int (d - days ?l) * ((l - s) / real_of_int (days ?l - days ?s)))"
  let ?raw = "discount_rate ?l + real_of_int (d - days ?l)
                * ((discount_rate ?l - discount_rate ?s) / real_of_int (days ?l - days ?s))"
  let ?new = "new_row e d y (max 0 (min (2 / 10) ?raw)) ''extrapolated''
                (late_field (reference_price ?l) (reference_price ?s)
                   (d - days ?l) (days ?l - days ?s))
                (late_field (forward_ratio ?l) (forward_ratio ?s)
                   (d - days ?l) (days ?l - days ?s))"
  have res: "extrapolate_late df e d y kwargs = Inr (df @ [?new])"
    unfolding extrapolate_late_def
    by (rule extrapolate_late_body_appends[where ps = "DEFAULT_PARAMS ++ kwargs",
          OF assms(3,4,1) ne])
  have rp: "\<forall>l s. reference_price ?l = Some (Num l) \<and> reference_price ?s = Some (Num s)
                 \<longrightarrow> reference_price ?new = Some (Num (max l (project l s))) \<and>
                     (project l s < l \<longrightarrow> reference_price ?new = Some (Num l)) \<and>
                     (l \<le> project l s \<longrightarrow> reference_price ?new = Some (Num (project l s)))"
    by (simp add: new_row_def late_field_Num[OF nz[unfolded One_nat_def]] project_def max_def)
  have fr: "\<forall>l s. forward_ratio ?l = Some (Num l) \<and> forward_ratio ?s = Some (Num s)
                 \<longrightarrow> forward_ratio ?new = Some (Num (max l (project l s))) \<and>
                     (project l s < l \<longrightarrow> forward_ratio ?new = Some (Num l)) \<and>
                     (l \<le> project l s \<longrightarrow> forward_ratio ?new = Some (Num (project l s)))"
    by (simp add: new_row_def late_field_Num[OF nz[unfolded One_nat_def]] project_def max_def)
  from res rp fr project_def anchors show ?thesis
    by blast
qed

text \<open>
  Property P5: rows at 300 days (price 105, ratio 3) and 310 days (price 100,
  ratio 2), target 320 days. The price projects to 95 and the appended price is 100;
  the ratio projects to 1 and the appended ratio is 2.
\<close>

theorem extrapolate_late_price_floor_witness:
  "2 \<le> length table_falling_price \<and> distinct (map days table_falling_price) \<and>
   (DEFAULT_PARAMS ++ no_kwargs) ''min_options_per_expiry'' = Some (PInt 2) \<and>
   len_lt (length table_falling_price) (PInt 2) = Inr False \<and>
   (\<exists>new. extrapolate_late table_falling_price ''2025-11-17'' 320 (320 / 365) no_kwargs
            = Inr (table_falling_price @ [new]) \<and>
          reference_price new = Some (Num 100) \<and> forward_ratio new = Some (Num 2))"
proof -
  have h1: "2 \<le> length table_falling_price" by (simp add: table_falling_price_def)
  have h2: "distinct (map days table_falling_price)"
    by (simp add: table_falling_price_def observed_def)
  have h3: "(DEFAULT_PARAMS ++ no_kwargs) ''min_options_per_expiry'' = Some (PInt 2)"
    by (simp add: default_min_options no_kwargs_def)
  have h4: "len_lt (length table_falling_price) (PInt 2) = Inr False"
    by (simp add: table_falling_price_def)
  from extrapolate_late_price_floor[OF h1 h2 h3 h4,
         where e = "''2025-11-17''" and d = 320 and y = "320 / 365"]
  obtain l s new project where
    mem: "l \<in> set table_falling_price" "s \<in> set table_falling_price" and
    lt: "days s < days l" and
    proj: "project = (\<lambda>a b. a + real_of_int (320 - days l)
                                 * ((a - b) / real_of_int (days l - days s)))" and
    res: "extrapolate_late table_falling_price ''2025-11-17'' 320 (320 / 365) no_kwargs
            = Inr (table_falling_price @ [new])" and
    rp: "\<forall>a b. reference_price l = Some (Num a) \<and> reference_price s = Some (Num b)
           \<longrightarrow> reference_price new = Some (Num (max a (project a b))) \<and>
               (project a b < a \<longrightarrow> reference_price new = Some (Num a)) \<and>
               (a \<le> project a b \<longrightarrow> reference_price new = Some (Num (project a b)))" and
    fr: "\<forall>a b. forward_ratio l = Some (Num a) \<and> forward_ratio s = Some (Num b)
           \<longrightarrow> forward_ratio new = Some (Num (max a (project a b))) \<and>
               (project a b < a \<longrightarrow> forward_ratio new = Some (Num a)) \<and>
               (a \<le> project a b \<longrightarrow> forward_ratio new = Some (Num (project a b)))"
    by blast
  have ls: "l = observed ''2025-11-07'' 310 (6 / 100) (Some (Num 100)) (Some (Num 2))
          \<and> s = observed ''2025-10-28'' 300 (5 / 100) (Some (Num 105)) (Some (Num 3))"
    using mem lt by (auto simp: table_falling_price_def observed_def)
  have p1: "project 100 105 = 95" using ls by (simp add: proj observed_def)
  have p2: "project 2 3 = 1" using ls by (simp add: proj observed_def)
  have r1: "reference_price new = Some (Num 100)"
    using rp[rule_format, of 100 105] ls p1 by (simp add: observed_def)
  have r2: "forward_ratio new = Some (Num 2)"
    using fr[rule_format, of 2 3] ls p2 by (simp add: observed_def)
  from h1 h2 h3 h4 res r1 r2 show ?thesis by blast
qed

section \<open>What each operation can return\<close>




text \<open>Evaluations on the table with rows at 10 and 30 days.\<close>

lemma sort_values_table_10_30:
  "sort_values True table_10_30 = table_10_30"
  "sort_values False table_10_30 = rev table_10_30"
  by (simp_all add: sort_values_def table_10_30_def observed_def)

lemma early_table_10_30:
  assumes "ps ''min_options_per_expiry'' = Some (PInt 2)"
  shows "extrapolate_early_body ps table_10_30 ''2025-01-06'' 5 (5 / 365) =
     Inr (table_10_30 @ [new_row ''2025-01-06'' 5 (5 / 365) (15 / 1000) ''extrapolated'' None None])"
proof -
  have "extrapolate_early_body ps table_10_30 ''2025-01-06'' 5 (5 / 365) =
     Inr (table_10_30 @ [new_row ''2025-01-06'' 5 (5 / 365)
        (max 0 (discount_rate (table_10_30 ! 0) - real_of_int (days (table_10_30 ! 0) - 5)
           * ((discount_rate (table_10_30 ! 1) - discount_rate (table_10_30 ! 0))
               / real_of_int (days (table_10_30 ! 1) - days (table_10_30 ! 0)))))
        ''extrapolated''
        (early_field (reference_price (table_10_30 ! 0)) (reference_price (table_10_30 ! 1))
           (days (table_10_30 ! 0) - 5) (days (table_10_30 ! 1) - days (table_10_30 ! 0)))
        (early_field (forward_ratio (table_10_30 ! 0)) (forward_ratio (table_10_30 ! 1))
           (days (table_10_30 ! 0) - 5) (days (table_10_30 ! 1) - days (table_10_30 ! 0)))])"
    using extrapolate_early_body_appends[where ps = ps and df = table_10_30 and v = "PInt 2",
            OF assms, of "''2025-01-06''" 5 "5 / 365"]
    by (simp add: sort_values_table_10_30) (simp add: table_10_30_def observed_def)
  then show ?thesis
    by (simp add: table_10_30_def observed_def early_field_def)
qed

lemma late_table_10_30:
  assumes "ps ''min_options_per_expiry'' = Some (PInt 2)"
  shows "extrapolate_late_body ps table_10_30 ''2025-03-01'' 60 (60 / 365) =
     Inr (table_10_30 @ [new_row ''2025-03-01'' 60 (60 / 365) (7 / 100) ''extrapolated'' None None])"
proof -
  have "extrapolate_late_body ps table_10_30 ''2025-03-01'' 60 (60 / 365) =
     Inr (table_10_30 @ [new_row ''2025-03-01'' 60 (60 / 365)
        (max 0 (min (2 / 10) (discount_rate (table_10_30 ! 1)
           + real_of_int (60 - days (table_10_30 ! 1))
           * ((discount_rate (table_10_30 ! 1) - discount_rate (table_10_30 ! 0))
               / real_of_int (days (table_10_30 ! 1) - days (table_10_30 ! 0))))))
        ''extrapolated''
        (late_field (reference_price (table_10_30 ! 1)) (reference_price (table_10_30 ! 0))
           (60 - days (table_10_30 ! 1)) (days (table_10_30 ! 1) - days (table_10_30 ! 0)))
        (late_field (forward_ratio (table_10_30 ! 1)) (forward_ratio (table_10_30 ! 0))
           (60 - days (table_10_30 ! 1)) (days (table_10_30 ! 1) - days (table_10_30 ! 0)))])"
    using extrapolate_late_body_appends[where ps = ps and df = table_10_30 and v = "PInt 2",
            OF assms, of "''2025-03-01''" 60 "60 / 365"]
    by (simp add: sort_values_table_10_30) (simp add: table_10_30_def observed_def)
  then show ?thesis
    by (simp add: table_10_30_def observed_def late_field_def)
qed


section \<open>Existing rows are preserved\<close>



section \<open>The configuration is read through one key only\<close>

lemma extrapolate_early_body_key:
  "ps ''min_options_per_expiry'' = qs ''min_options_per_expiry''
     \<Longrightarrow> extrapolate_early_body ps df e d y = extrapolate_early_body qs df e d y"
  by (simp add: extrapolate_early_body_def)

lemma extrapolate_late_body_key:
  "ps ''min_options_per_expiry'' = qs ''min_options_per_expiry''
     \<Longrightarrow> extrapolate_late_body ps df e d y = extrapolate_late_body qs df e d y"
  by (simp add: extrapolate_late_body_def)

text \<open>
  Claim C9. \<open>extrapolate_early\<close> and \<open>extrapolate_late\<close> depend on the keyword
  arguments only through \<open>min_options_per_expiry\<close>: the result is that of the body
  run on the one-entry dictionary holding the caller's value for that key, or 2 when
  the caller gave none. So two sets of keyword arguments that agree on that key (or
  both omit it) give identical results, every other key is ignored, and a value the
  caller supplies replaces the default 2.
\<close>

theorem config_only_min_options:
  "extrapolate_early df e d y kwargs =
     extrapolate_early_body
       [''min_options_per_expiry'' \<mapsto>
          (case kwargs ''min_options_per_expiry'' of None \<Rightarrow> PInt 2 | Some v \<Rightarrow> v)]
       df e d y \<and>
   extrapolate_late df e d y kwargs =
     extrapolate_late_body
       [''min_options_per_expiry'' \<mapsto>
          (case kwargs ''min_options_per_expiry'' of None \<Rightarrow> PInt 2 | Some v \<Rightarrow> v)]
       df e d y \<and>
   (kwargs ''min_options_per_expiry'' = kwargs' ''min_options_per_expiry''
      \<longrightarrow> extrapolate_early df e d y kwargs = extrapolate_early df e d y kwargs' \<and>
          extrapolate_late df e d y kwargs = extrapolate_late df e d y kwargs')"
proof (intro conjI impI)
  show "extrapolate_early df e d y kwargs =
     extrapolate_early_body
       [''min_options_per_expiry'' \<mapsto>
          (case kwargs ''min_options_per_expiry'' of None \<Rightarrow> PInt 2 | Some v \<Rightarrow> v)]
       df e d y"
    unfolding extrapolate_early_def
    by (rule extrapolate_early_body_key) (simp add: effective_min_options)
  show "extrapolate_late df e d y kwargs =
     extrapolate_late_body
       [''min_options_per_expiry'' \<mapsto>
          (case kwargs ''min_options_per_expiry'' of None \<Rightarrow> PInt 2 | Some v \<Rightarrow> v)]
       df e d y"
    unfolding extrapolate_late_def
    by (rule extrapolate_late_body_key) (simp add: effective_min_options)
next
  assume eq: "kwargs ''min_options_per_expiry'' = kwargs' ''min_options_per_expiry''"
  show "extrapolate_early df e d y kwargs = extrapolate_early df e d y kwargs'"
    unfolding extrapolate_early_def
    by (rule extrapolate_early_body_key) (simp add: effective_min_options eq)
  show "extrapolate_late df e d y kwargs = extrapolate_late df e d y kwargs'"
    unfolding extrapolate_late_def
    by (rule extrapolate_late_body_key) (simp add: effective_min_options eq)
qed

text \<open>
  Keyword arguments that set \<^verbatim>\<open>debug\<close>, \<^verbatim>\<open>max_rate\<close> and an unknown key \<^verbatim>\<open>colour\<close> give
  the results of a call without keyword arguments; the override 3 makes the two-row
  table too short, where the default 2 does not.
\<close>

theorem config_only_min_options_witness:
  "noisy_kwargs ''min_options_per_expiry'' = no_kwargs ''min_options_per_expiry'' \<and>
   extrapolate_early table_10_30 ''2025-01-06'' 5 (5 / 365) noisy_kwargs =
     extrapolate_early table_10_30 ''2025-01-06'' 5 (5 / 365) no_kwargs \<and>
   extrapolate_late table_10_30 ''2025-03-01'' 60 (60 / 365) noisy_kwargs =
     extrapolate_late table_10_30 ''2025-03-01'' 60 (60 / 365) no_kwargs \<and>
   extrapolate_early table_10_30 ''2025-01-06'' 5 (5 / 365) no_kwargs =
     Inr (table_10_30 @
       [new_row ''2025-01-06'' 5 (5 / 365) (15 / 1000) ''extrapolated'' None None]) \<and>
   extrapolate_early table_10_30 ''2025-01-06'' 5 (5 / 365) (threshold_kwargs (PInt 3)) =
     Inr table_10_30"
proof -
  have h: "noisy_kwargs ''min_options_per_expiry'' = no_kwargs ''min_options_per_expiry''"
    by (simp add: noisy_kwargs_def no_kwargs_def)
  note t = config_only_min_options
  note same = t[where kwargs = noisy_kwargs and kwargs' = no_kwargs,
                THEN conjunct2, THEN conjunct2, THEN mp, OF h]
  have d2: "extrapolate_early table_10_30 ''2025-01-06'' 5 (5 / 365) no_kwargs =
     Inr (table_10_30 @
       [new_row ''2025-01-06'' 5 (5 / 365) (15 / 1000) ''extrapolated'' None None])"
    unfolding t[where kwargs = no_kwargs, THEN conjunct1]
    by (rule early_table_10_30) (simp add: no_kwargs_def)
  have d3: "extrapolate_early table_10_30 ''2025-01-06'' 5 (5 / 365) (threshold_kwargs (PInt 3)) =
     Inr table_10_30"
    unfolding t[where kwargs = "threshold_kwargs (PInt 3)", THEN conjunct1]
    by (simp add: extrapolate_early_body_def threshold_kwargs_def table_10_30_def)
  from h same d2 d3 show ?thesis by blast
qed

section \<open>The defaults are copied, never written\<close>

lemma run_call_store:
  assumes "st \<noteq> []"
  shows "snd (run_call st c) = st @ [(st ! DEFAULT_PARAMS_ref) ++
            (case c of Early df e d y kwargs \<Rightarrow> kwargs | Late df e d y kwargs \<Rightarrow> kwargs)]"
  using assms
  by (cases c)
     (simp_all add: extrapolate_early_st_def extrapolate_late_st_def dict_copy_def
        dict_update_def DEFAULT_PARAMS_ref_def nth_append)

lemma run_call_result:
  assumes "st \<noteq> []" and "st ! DEFAULT_PARAMS_ref = DEFAULT_PARAMS"
  shows "fst (run_call st c) = call_result c"
  using assms
  by (cases c)
     (simp_all add: extrapolate_early_st_def extrapolate_late_st_def dict_copy_def
        dict_update_def DEFAULT_PARAMS_ref_def nth_append extrapolate_early_def
        extrapolate_late_def)

lemma run_calls_store:
  "st \<noteq> [] \<Longrightarrow>
     take (length st) (snd (run_calls st cs)) = st \<and>
     length (snd (run_calls st cs)) = length st + length cs"
proof (induction cs arbitrary: st)
  case Nil
  then show ?case by simp
next
  case (Cons c cs)
  let ?st1 = "snd (run_call st c)"
  have st1: "?st1 = st @ [(st ! DEFAULT_PARAMS_ref) ++
            (case c of Early df e d y kwargs \<Rightarrow> kwargs | Late df e d y kwargs \<Rightarrow> kwargs)]"
    using Cons.prems by (rule run_call_store)
  then have ne: "?st1 \<noteq> []" by simp
  have ih: "take (length ?st1) (snd (run_calls ?st1 cs)) = ?st1"
    "length (snd (run_calls ?st1 cs)) = length ?st1 + length cs"
    using Cons.IH[OF ne] by simp_all
  have snd_eq: "snd (run_calls st (c # cs)) = snd (run_calls ?st1 cs)"
    by (simp add: split_beta Let_def)
  have "take (length st) (snd (run_calls ?st1 cs))
          = take (length st) (take (length ?st1) (snd (run_calls ?st1 cs)))"
    by (simp add: st1 min_def)
  also have "\<dots> = take (length st) ?st1" by (simp only: ih(1))
  also have "\<dots> = st" by (simp add: st1)
  finally have "take (length st) (snd (run_calls st (c # cs))) = st"
    by (simp only: snd_eq)
  moreover have "length (snd (run_calls st (c # cs))) = length st + length (c # cs)"
    by (simp only: snd_eq ih(2)) (simp add: st1)
  ultimately show ?case by blast
qed

lemma run_calls_results:
  "st \<noteq> [] \<Longrightarrow> st ! DEFAULT_PARAMS_ref = DEFAULT_PARAMS
     \<Longrightarrow> fst (run_calls st cs) = map call_result cs"
proof (induction cs arbitrary: st)
  case Nil
  then show ?case by simp
next
  case (Cons c cs)
  let ?st1 = "snd (run_call st c)"
  have st1: "?st1 = st @ [(st ! DEFAULT_PARAMS_ref) ++
            (case c of Early df e d y kwargs \<Rightarrow> kwargs | Late df e d y kwargs \<Rightarrow> kwargs)]"
    using Cons.prems(1) by (rule run_call_store)
  then have ne: "?st1 \<noteq> []" by simp
  have keep: "?st1 ! DEFAULT_PARAMS_ref = DEFAULT_PARAMS"
    using Cons.prems by (simp add: st1 nth_append DEFAULT_PARAMS_ref_def)
  have "fst (run_calls st (c # cs)) = fst (run_call st c) # fst (run_calls ?st1 cs)"
    by (simp add: split_beta Let_def)
  then show ?case
    using Cons.IH[OF ne keep] run_call_result[OF Cons.prems] by simp
qed

text \<open>
  Claim C10. Start from any store in which \<^verbatim>\<open>DEFAULT_PARAMS\<close> exists and run any
  sequence of calls of \<open>extrapolate_early\<close> and \<open>extrapolate_late\<close>, each with its own
  keyword arguments. Every call copies the defaults into a new dictionary object and
  writes the overrides to the copy: the objects that existed before the calls, the
  defaults among them, are unchanged afterwards, one new object per call has been
  added, and when the defaults are those of \<^verbatim>\<open>config.py\<close> every call returns what it
  returns on the untouched defaults, whatever the earlier calls were given.
\<close>

theorem default_params_never_modified:
  "st \<noteq> [] \<longrightarrow>
     snd (run_calls st cs) ! DEFAULT_PARAMS_ref = st ! DEFAULT_PARAMS_ref \<and>
     take (length st) (snd (run_calls st cs)) = st \<and>
     length (snd (run_calls st cs)) = length st + length cs \<and>
     (st ! DEFAULT_PARAMS_ref = DEFAULT_PARAMS
        \<longrightarrow> fst (run_calls st cs) = map call_result cs)"
proof (intro impI conjI)
  assume ne: "st \<noteq> []"
  note s = run_calls_store[OF ne, of cs]
  show "take (length st) (snd (run_calls st cs)) = st"
    and "length (snd (run_calls st cs)) = length st + length cs"
    using s by simp_all
  have "snd (run_calls st cs) ! 0 = take (length st) (snd (run_calls st cs)) ! 0"
    using ne by simp
  then show "snd (run_calls st cs) ! DEFAULT_PARAMS_ref = st ! DEFAULT_PARAMS_ref"
    using s by (simp add: DEFAULT_PARAMS_ref_def)
next
  assume "st \<noteq> []" "st ! DEFAULT_PARAMS_ref = DEFAULT_PARAMS"
  then show "fst (run_calls st cs) = map call_result cs"
    by (rule run_calls_results)
qed

text \<open>
  Three calls on the table with rows at 10 and 30 days, starting from the module's
  store: the first passes the override 3 and gets the table back; the second passes
  other keys; the third passes nothing and still runs under the default 2, so it
  appends a row. The defaults are the same object content afterwards.
\<close>

theorem default_params_never_modified_witness:
  "[DEFAULT_PARAMS] \<noteq> [] \<and>
   [DEFAULT_PARAMS] ! DEFAULT_PARAMS_ref = DEFAULT_PARAMS \<and>
   snd (run_calls [DEFAULT_PARAMS] example_calls) ! DEFAULT_PARAMS_ref = DEFAULT_PARAMS \<and>
   length (snd (run_calls [DEFAULT_PARAMS] example_calls)) = 4 \<and>
   fst (run_calls [DEFAULT_PARAMS] example_calls) =
     [Inr table_10_30,
      Inr (table_10_30 @
        [new_row ''2025-03-01'' 60 (60 / 365) (7 / 100) ''extrapolated'' None None]),
      Inr (table_10_30 @
        [new_row ''2025-01-06'' 5 (5 / 365) (15 / 1000) ''extrapolated'' None None])]"
proof -
  have h1: "[DEFAULT_PARAMS] \<noteq> []" by simp
  have h2: "[DEFAULT_PARAMS] ! DEFAULT_PARAMS_ref = DEFAULT_PARAMS"
    by (simp add: DEFAULT_PARAMS_ref_def)
  note t = default_params_never_modified[of "[DEFAULT_PARAMS]" example_calls, THEN mp, OF h1]
  have keep: "snd (run_calls [DEFAULT_PARAMS] example_calls) ! DEFAULT_PARAMS_ref = DEFAULT_PARAMS"
    using t h2 by simp
  have len: "length (snd (run_calls [DEFAULT_PARAMS] example_calls)) = 4"
    using t by (simp add: example_calls_def)
  have res: "fst (run_calls [DEFAULT_PARAMS] example_calls) = map call_result example_calls"
    using t h2 by blast
  have c1: "extrapolate_early table_10_30 ''2025-01-06'' 5 (5 / 365) (threshold_kwargs (PInt 3))
              = Inr table_10_30"
    by (simp add: extrapolate_early_def extrapolate_early_body_def threshold_kwargs_def
          table_10_30_def)
  have c2: "extrapolate_late table_10_30 ''2025-03-01'' 60 (60 / 365) noisy_kwargs =
      Inr (table_10_30 @
        [new_row ''2025-03-01'' 60 (60 / 365) (7 / 100) ''extrapolated'' None None])"
    unfolding extrapolate_late_def
    by (rule late_table_10_30) (simp add: default_min_options noisy_kwargs_def map_add_def)
  have c3: "extrapolate_early table_10_30 ''2025-01-06'' 5 (5 / 365) no_kwargs =
      Inr (table_10_30 @
        [new_row ''2025-01-06'' 5 (5 / 365) (15 / 1000) ''extrapolated'' None None])"
    unfolding extrapolate_early_def
    by (rule early_table_10_30) (simp add: default_min_options no_kwargs_def)
  have "map call_result example_calls =
     [Inr table_10_30,
      Inr (table_10_30 @
        [new_row ''2025-03-01'' 60 (60 / 365) (7 / 100) ''extrapolated'' None None]),
      Inr (table_10_30 @
        [new_row ''2025-01-06'' 5 (5 / 365) (15 / 1000) ''extrapolated'' None None])]"
    unfolding example_calls_def by (simp only: list.map call_result.simps c1 c2 c3)
  with h1 h2 keep len res show ?thesis by simp
qed

section \<open>Presence of the optional fields\<close>







section \<open>Where a zero days gap can occur\<close>


text \<open>
  What the extrapolators return on tied anchor rows. The slope is \<open>0 / 0\<close>, nan, on
  both tables; \<^verbatim>\<open>max(0.0, nan)\<close> is 0.0, and \<^verbatim>\<open>min(0.2, nan)\<close> is 0.2.
\<close>

lemma zero_gap_outcomes:
  "extrapolate_early table_duplicate_days ''2025-01-06'' 5 (5 / 365) no_kwargs =
     Inr (table_duplicate_days @
       [new_row ''2025-01-06'' 5 (5 / 365) 0 ''extrapolated'' None None])"
  "extrapolate_late table_duplicate_top ''2025-03-01'' 60 (60 / 365) no_kwargs =
     Inr (table_duplicate_top @
       [new_row ''2025-03-01'' 60 (60 / 365) (2 / 10) ''extrapolated'' None None])"
  by (simp_all add: extrapolate_early_def extrapolate_early_body_def extrapolate_late_def
        extrapolate_late_body_def default_min_options no_kwargs_def table_duplicate_days_def
        table_duplicate_top_def observed_def sort_values_def iloc_def early_field_def
        late_field_def Let_def cell_max_def cell_min_def plus_cell_def minus_cell_def
        times_cell_def)




end
